theory Spec2Isabelle
  imports Complex_Main "HOL-Library.AList" "HOL-Library.Char_ord" "HOL-Library.List_Lexorder"
begin

section \<open>Python values\<close>

text \<open>
  The program is dynamically typed: a field of a record holds whatever the caller put
  into the keyword mapping. The values that reach the modelled code are \<open>None\<close>, text,
  floats, booleans and calendar dates. A float is a finite number, one of the two
  infinities or the not-a-number marker; finite floats are read as the rational numbers
  they denote, which is all that the comparisons of the program look at.
\<close>

datatype pyfloat = Fin rat | PosInf | NegInf | NaN

datatype pydate = Date nat nat nat

datatype pydatetime = DateTime nat nat nat nat nat

datatype pyval = PNone | PStr string | PFloat pyfloat | PBool bool | PDate pydate

datatype error = TypeError | ValueError | AttributeError | UnsupportedCriterionError

text \<open>\<open>datetime.date()\<close>: the calendar date of a date-time, the time of day dropped.\<close>

fun dt_date :: "pydatetime \<Rightarrow> pydate" where
  "dt_date (DateTime y m d h mi) = Date y m d"

text \<open>Truth value testing of Python (\<open>if x\<close>, \<open>x or y\<close>, \<open>a if x else b\<close>).\<close>

fun truthy :: "pyval \<Rightarrow> bool" where
  "truthy PNone = False"
| "truthy (PStr s) = (s \<noteq> [])"
| "truthy (PFloat f) = (f \<noteq> Fin 0)"
| "truthy (PBool b) = b"
| "truthy (PDate d) = True"

text \<open>
  The builtin \<open>float(x)\<close>. How a text is read as a float is the parameter \<open>str2f\<close>
  (\<open>None\<close> where Python raises \<open>ValueError\<close>). \<open>float(None)\<close> and the float of a
  date raise \<open>TypeError\<close>.
\<close>

fun py_float :: "(string \<Rightarrow> pyfloat option) \<Rightarrow> pyval \<Rightarrow> error + pyfloat" where
  "py_float str2f PNone = Inl TypeError"
| "py_float str2f (PStr s) = (case str2f s of None \<Rightarrow> Inl ValueError | Some f \<Rightarrow> Inr f)"
| "py_float str2f (PFloat f) = Inr f"
| "py_float str2f (PBool b) = Inr (Fin (if b then 1 else 0))"
| "py_float str2f (PDate d) = Inl TypeError"

text \<open>The keyword mapping \<open>**info\<close> and \<open>info.get(key)\<close>, which is \<open>None\<close> for an absent key.\<close>

type_synonym info = "string \<rightharpoonup> pyval"

definition info_get :: "info \<Rightarrow> string \<Rightarrow> pyval" where
  "info_get info k = (case info k of None \<Rightarrow> PNone | Some v \<Rightarrow> v)"

section \<open>models.py: record construction\<close>

text \<open>
  \<open>approaches\<close> holds the positions of the linked close approaches in the database's
  collection; the constructor creates it empty.
\<close>

record NearEarthObject =
  name :: pyval
  designation :: pyval
  diameter :: pyval
  hazardous :: pyval
  approaches :: "nat list"

text \<open>
  \<open>isDigitorNone\<close>: \<open>try: return float(value) except ValueError: return float('nan')\<close>.
  Only \<open>ValueError\<close> is caught; any other exception leaves the method.
\<close>

definition isDigitorNone :: "(string \<Rightarrow> pyfloat option) \<Rightarrow> pyval \<Rightarrow> error + pyfloat" where
  "isDigitorNone str2f v =
     (case py_float str2f v of
        Inl e \<Rightarrow> (if e = ValueError then Inr NaN else Inl e)
      | Inr f \<Rightarrow> Inr f)"

text \<open>
  \<open>NearEarthObject.__init__\<close>. The name is replaced by \<open>None\<close> when it is one of the
  two texts of the tuple \<open>(' ', '')\<close>.
\<close>

definition NearEarthObject_init :: "(string \<Rightarrow> pyfloat option) \<Rightarrow> info \<Rightarrow> error + NearEarthObject" where
  "NearEarthObject_init str2f info =
     (let name0 = info_get info ''name'';
          name1 = (if name0 = PStr '' '' \<or> name0 = PStr '''' then PNone else name0);
          designation1 = info_get info ''designation''
      in case isDigitorNone str2f (info_get info ''diameter'') of
           Inl e \<Rightarrow> Inl e
         | Inr d \<Rightarrow>
             Inr \<lparr>name = name1, designation = designation1, diameter = PFloat d,
                  hazardous = info_get info ''hazardous'', approaches = []\<rparr>)"

text \<open>
  \<open>CloseApproach\<close>. The attribute \<open>_designation\<close> is the field \<open>ca_designation\<close>. The
  linked NEO is not a value of the keyword mapping's scalar kinds; the keyword \<open>neo\<close> is
  the argument \<open>neo_kw\<close> of the constructor.
\<close>

record CloseApproach =
  ca_designation :: pyval
  time :: pydatetime
  distance :: pyval
  velocity :: pyval
  neo :: "NearEarthObject option"

text \<open>
  \<open>CloseApproach.__init__\<close>. \<open>cd_to_datetime\<close> comes from the module \<open>helpers\<close> and is a
  parameter here. The distance is passed through \<open>float\<close> unless it is a float already;
  the velocity is stored as it was given.
\<close>

definition CloseApproach_init ::
  "(pyval \<Rightarrow> error + pydatetime) \<Rightarrow> (string \<Rightarrow> pyfloat option) \<Rightarrow> info \<Rightarrow>
     NearEarthObject option \<Rightarrow> error + CloseApproach" where
  "CloseApproach_init cd_to_datetime str2f info neo_kw =
     (case cd_to_datetime (info_get info ''time'') of
        Inl e \<Rightarrow> Inl e
      | Inr t \<Rightarrow>
          (case (case info_get info ''distance'' of
                   PFloat f \<Rightarrow> Inr f
                 | v \<Rightarrow> py_float str2f v) of
             Inl e \<Rightarrow> Inl e
           | Inr d \<Rightarrow>
               Inr \<lparr>ca_designation = info_get info ''designation'', time = t,
                    distance = PFloat d, velocity = info_get info ''velocity'',
                    neo = neo_kw\<rparr>))"

section \<open>filters.py: comparison operators and attribute filters\<close>

text \<open>
  The comparators \<open>eq\<close>, \<open>ge\<close> and \<open>le\<close> of Python's \<open>operator\<close> module on the values
  above. Floats and booleans compare as numbers, and every comparison with not-a-number is
  false. Texts compare lexicographically and dates by year, month and day. Equality of
  values of different kinds is false; ordering them raises \<open>TypeError\<close>.
\<close>

datatype operator = eq | ge | le

fun float_eq :: "pyfloat \<Rightarrow> pyfloat \<Rightarrow> bool" where
  "float_eq NaN y = False"
| "float_eq x NaN = False"
| "float_eq x y = (x = y)"

fun float_le :: "pyfloat \<Rightarrow> pyfloat \<Rightarrow> bool" where
  "float_le NaN y = False"
| "float_le x NaN = False"
| "float_le NegInf y = True"
| "float_le x PosInf = True"
| "float_le (Fin a) (Fin b) = (a \<le> b)"
| "float_le x y = False"

fun as_number :: "pyval \<Rightarrow> pyfloat option" where
  "as_number (PFloat f) = Some f"
| "as_number (PBool b) = Some (Fin (if b then 1 else 0))"
| "as_number v = None"

fun date_le :: "pydate \<Rightarrow> pydate \<Rightarrow> bool" where
  "date_le (Date y m d) (Date y' m' d') =
     (y < y' \<or> (y = y' \<and> (m < m' \<or> (m = m' \<and> d \<le> d'))))"

definition py_eq :: "pyval \<Rightarrow> pyval \<Rightarrow> bool" where
  "py_eq a b =
     (case (as_number a, as_number b) of
        (Some x, Some y) \<Rightarrow> float_eq x y
      | _ \<Rightarrow> a = b)"

fun py_le :: "pyval \<Rightarrow> pyval \<Rightarrow> error + bool" where
  "py_le (PStr s) (PStr t) = Inr (s \<le> t)"
| "py_le (PDate d) (PDate e) = Inr (date_le d e)"
| "py_le a b =
     (case (as_number a, as_number b) of
        (Some x, Some y) \<Rightarrow> Inr (float_le x y)
      | _ \<Rightarrow> Inl TypeError)"

fun apply_operator :: "operator \<Rightarrow> pyval \<Rightarrow> pyval \<Rightarrow> error + bool" where
  "apply_operator eq a b = Inr (py_eq a b)"
| "apply_operator ge a b = py_le b a"
| "apply_operator le a b = py_le a b"

text \<open>
  A filter object: its class (which decides \<open>get\<close>), the comparator and the reference
  value. \<open>AttributeFilter\<close> is the base class, whose \<open>get\<close> raises.
\<close>

datatype filter_class =
  AttributeFilter | DateFilter | DistFilter | VeloFilter | DiamFilter | HazFilter

record attribute_filter =
  cls :: filter_class
  op :: operator
  ref_value :: pyval

text \<open>
  The class method \<open>get\<close> of each class. Reading an attribute of \<open>approach.neo\<close> when
  no NEO is linked (\<open>None\<close>) raises \<open>AttributeError\<close>.
\<close>

fun get :: "filter_class \<Rightarrow> CloseApproach \<Rightarrow> error + pyval" where
  "get AttributeFilter approach = Inl UnsupportedCriterionError"
| "get DateFilter approach = Inr (PDate (dt_date (time approach)))"
| "get DistFilter approach = Inr (distance approach)"
| "get VeloFilter approach = Inr (velocity approach)"
| "get DiamFilter approach =
     (case neo approach of None \<Rightarrow> Inl AttributeError | Some n \<Rightarrow> Inr (diameter n))"
| "get HazFilter approach =
     (case neo approach of None \<Rightarrow> Inl AttributeError | Some n \<Rightarrow> Inr (hazardous n))"

text \<open>\<open>AttributeFilter.__call__\<close>: \<open>self.op(self.get(approach), self.value)\<close>.\<close>

definition filter_call :: "attribute_filter \<Rightarrow> CloseApproach \<Rightarrow> error + bool" where
  "filter_call f approach =
     (case get (cls f) approach of
        Inl e \<Rightarrow> Inl e
      | Inr v \<Rightarrow> apply_operator (op f) v (ref_value f))"

text \<open>
  \<open>create_filters\<close>. The two dictionaries keep their insertion order; the loop runs over
  \<open>filter_mappings\<close> and appends a filter for every key whose value is not \<open>None\<close>.
\<close>

definition filter_mappings :: "(string \<times> filter_class \<times> operator) list" where
  "filter_mappings =
     [(''date'', DateFilter, eq),
      (''start_date'', DateFilter, ge),
      (''end_date'', DateFilter, le),
      (''distance_min'', DistFilter, ge),
      (''distance_max'', DistFilter, le),
      (''velocity_min'', VeloFilter, ge),
      (''velocity_max'', VeloFilter, le),
      (''diameter_min'', DiamFilter, ge),
      (''diameter_max'', DiamFilter, le),
      (''hazardous'', HazFilter, eq)]"

fun create_filters_loop ::
  "(string \<times> filter_class \<times> operator) list \<Rightarrow> info \<Rightarrow> attribute_filter list \<Rightarrow>
     attribute_filter list" where
  "create_filters_loop [] filter_values filters = filters"
| "create_filters_loop ((key, filter_class, oper) # rest) filter_values filters =
     (let v = info_get filter_values key
      in if v \<noteq> PNone
         then create_filters_loop rest filter_values
                (filters @ [\<lparr>cls = filter_class, op = oper, ref_value = v\<rparr>])
         else create_filters_loop rest filter_values filters)"

definition create_filters ::
  "pyval \<Rightarrow> pyval \<Rightarrow> pyval \<Rightarrow> pyval \<Rightarrow> pyval \<Rightarrow> pyval \<Rightarrow> pyval \<Rightarrow> pyval \<Rightarrow> pyval \<Rightarrow> pyval \<Rightarrow>
     attribute_filter list" where
  "create_filters date start_date end_date distance_min distance_max
       velocity_min velocity_max diameter_min diameter_max hazardous_arg =
     create_filters_loop filter_mappings
       (map_of
          [(''date'', date),
           (''start_date'', start_date),
           (''end_date'', end_date),
           (''distance_min'', distance_min),
           (''distance_max'', distance_max),
           (''velocity_min'', velocity_min),
           (''velocity_max'', velocity_max),
           (''diameter_min'', diameter_min),
           (''diameter_max'', diameter_max),
           (''hazardous'', hazardous_arg)])
       []"

section \<open>filters.py: the result limiter\<close>

text \<open>
  \<open>limit\<close> is a generator. Its source is an iterator over a finite sequence: the list of
  the items not pulled yet. The suspended generator is its frame: the source, the cap,
  the counter and the place where it resumes. \<open>limit_next\<close> is one \<open>next()\<close> on the
  generator: it returns the item yielded, or \<open>None\<close> when the generator is exhausted,
  and the frame afterwards. The \<open>for\<close> loop pulls an item from the source first and
  compares the counter with the cap after that.
\<close>

datatype resume_at = AtStart | InYieldFrom | AfterYield | Finished

record 'a limit_gen =
  iterator :: "'a list"
  cap :: "int option"
  count :: int
  pc :: resume_at

definition limit :: "'a list \<Rightarrow> int option \<Rightarrow> 'a limit_gen" where
  "limit it n = \<lparr>iterator = it, cap = n, count = 0, pc = AtStart\<rparr>"

definition yield_from_step :: "'a limit_gen \<Rightarrow> 'a option \<times> 'a limit_gen" where
  "yield_from_step g =
     (case iterator g of
        [] \<Rightarrow> (None, g\<lparr>pc := Finished\<rparr>)
      | item # rest \<Rightarrow> (Some item, g\<lparr>iterator := rest, pc := InYieldFrom\<rparr>))"

definition for_step :: "'a limit_gen \<Rightarrow> 'a option \<times> 'a limit_gen" where
  "for_step g =
     (case iterator g of
        [] \<Rightarrow> (None, g\<lparr>pc := Finished\<rparr>)
      | item # rest \<Rightarrow>
          (case cap g of
             None \<Rightarrow> (None, g\<lparr>iterator := rest, pc := Finished\<rparr>)
           | Some n \<Rightarrow>
               if count g \<ge> n then (None, g\<lparr>iterator := rest, pc := Finished\<rparr>)
               else (Some item, g\<lparr>iterator := rest, pc := AfterYield\<rparr>)))"

fun limit_resume :: "resume_at \<Rightarrow> 'a limit_gen \<Rightarrow> 'a option \<times> 'a limit_gen" where
  "limit_resume AtStart g =
     (if cap g = None \<or> cap g = Some 0 then yield_from_step g
      else for_step (g\<lparr>count := 0\<rparr>))"
| "limit_resume InYieldFrom g = yield_from_step g"
| "limit_resume AfterYield g = for_step (g\<lparr>count := count g + 1\<rparr>)"
| "limit_resume Finished g = (None, g)"

definition limit_next :: "'a limit_gen \<Rightarrow> 'a option \<times> 'a limit_gen" where
  "limit_next g = limit_resume (pc g) g"

text \<open>
  A consumer that calls \<open>next()\<close> exactly \<open>k\<close> times (stopping early if the generator
  ends), and one that runs the generator to exhaustion, as a \<open>for\<close> loop over it does.
  Both return the items received and the frame left behind.
\<close>

fun take_next :: "nat \<Rightarrow> 'a limit_gen \<Rightarrow> 'a list \<times> 'a limit_gen" where
  "take_next 0 g = ([], g)"
| "take_next (Suc k) g =
     (case limit_next g of
        (None, g') \<Rightarrow> ([], g')
      | (Some x, g') \<Rightarrow> (case take_next k g' of (ys, g'') \<Rightarrow> (x # ys, g'')))"

function drain :: "'a limit_gen \<Rightarrow> 'a list \<times> 'a limit_gen" where
  "drain g =
     (case limit_next g of
        (None, g') \<Rightarrow> ([], g')
      | (Some x, g') \<Rightarrow> (case drain g' of (ys, g'') \<Rightarrow> (x # ys, g'')))"
  by pat_completeness auto
termination
proof (relation "measure (\<lambda>g. length (iterator g))")
  show "wf (measure (\<lambda>g::'a limit_gen. length (iterator g)))"
    by simp
next
  fix g :: "'a limit_gen" and r g' x
  assume "(r, g') = limit_next g" and "r = Some x"
  then have "limit_next g = (Some x, g')"
    by simp
  then have "length (iterator g') < length (iterator g)"
    by (cases "pc g")
       (auto simp: limit_next_def yield_from_step_def for_step_def
             split: list.splits option.splits if_splits)
  then show "(g', g) \<in> measure (\<lambda>g. length (iterator g))"
    by simp
qed

declare drain.simps [simp del]

section \<open>The query engine\<close>

text \<open>
  Modelled from the spec: the \<open>query\<close> operation of \<open>NEODatabase\<close>, whose module is not
  among the sources. The spec's contract: over the database's close approaches in their
  load order, a record matches iff every filter of the collection returns true (zero
  filters match everything), filtering rejects a record on its first failing filter, and
  the matches are produced lazily in the original order. \<open>matches\<close> is the conjunction
  with its short circuit, \<open>query_next\<close> is one pull on the lazy sequence (the next match
  and the approaches not looked at yet), and \<open>query\<close> is the sequence run to its end.
  The filters are the ones of \<open>filters.py\<close>; an exception of a filter ends the query.
\<close>

fun matches :: "attribute_filter list \<Rightarrow> CloseApproach \<Rightarrow> error + bool" where
  "matches [] approach = Inr True"
| "matches (f # fs) approach =
     (case filter_call f approach of
        Inl e \<Rightarrow> Inl e
      | Inr b \<Rightarrow> if b then matches fs approach else Inr False)"

fun query_next ::
  "attribute_filter list \<Rightarrow> CloseApproach list \<Rightarrow>
     error + (CloseApproach option \<times> CloseApproach list)" where
  "query_next fs [] = Inr (None, [])"
| "query_next fs (a # rest) =
     (case matches fs a of
        Inl e \<Rightarrow> Inl e
      | Inr b \<Rightarrow> if b then Inr (Some a, rest) else query_next fs rest)"

fun query :: "CloseApproach list \<Rightarrow> attribute_filter list \<Rightarrow> error + CloseApproach list" where
  "query [] fs = Inr []"
| "query (a # rest) fs =
     (case matches fs a of
        Inl e \<Rightarrow> Inl e
      | Inr b \<Rightarrow>
          (case query rest fs of
             Inl e \<Rightarrow> Inl e
           | Inr found \<Rightarrow> Inr (if b then a # found else found)))"

section \<open>write.py: the row-oriented export\<close>

text \<open>
  A dictionary with its insertion order is an association list; assigning to a key
  replaces the value in place or appends the key (\<open>AList.update\<close>). \<open>datetime_to_str\<close>
  comes from the module \<open>helpers\<close> and is a parameter. A date-time object is always true
  in a condition, so \<open>serialize\<close> of a close approach always formats the time.
\<close>

type_synonym pydict = "(string \<times> pyval) list"

definition dict_get :: "pydict \<Rightarrow> string \<Rightarrow> pyval \<Rightarrow> pyval" where
  "dict_get d k dflt = (case map_of d k of None \<Rightarrow> dflt | Some v \<Rightarrow> v)"

definition dict_merge :: "pydict \<Rightarrow> pydict \<Rightarrow> pydict" where
  "dict_merge d1 d2 = fold (\<lambda>(k, v). AList.update k v) d2 d1"

definition neo_serialize :: "NearEarthObject \<Rightarrow> pydict" where
  "neo_serialize n =
     [(''designation'', if truthy (designation n) then designation n else PStr ''''),
      (''name'', if truthy (name n) then name n else PStr ''''),
      (''diameter_km'', if diameter n \<noteq> PNone then diameter n else PFloat NaN),
      (''potentially_hazardous'', hazardous n)]"

definition ca_serialize :: "(pydatetime \<Rightarrow> string) \<Rightarrow> CloseApproach \<Rightarrow> pydict" where
  "ca_serialize datetime_to_str a =
     [(''datetime_utc'', PStr (datetime_to_str (time a))),
      (''distance_au'', distance a),
      (''velocity_km_s'', velocity a)]"

definition fieldnames :: "string list" where
  "fieldnames =
     [''datetime_utc'', ''distance_au'', ''velocity_km_s'', ''designation'', ''name'',
      ''diameter_km'', ''potentially_hazardous'']"

text \<open>
  \<open>csv.DictWriter.writerow\<close> with the default settings: a key outside the field names
  raises \<open>ValueError\<close>, and the row is the values of the field names in their order, an
  absent one being the empty text. The cells are the values before the writer turns them
  into text.
\<close>

definition writerow :: "string list \<Rightarrow> pydict \<Rightarrow> error + pyval list" where
  "writerow names content =
     (if list_ex (\<lambda>k. k \<notin> set names) (map fst content) then Inl ValueError
      else Inr (map (\<lambda>k. dict_get content k (PStr '''')) names))"

text \<open>The body of the loop of \<open>write_to_csv\<close> for one close approach \<open>line\<close>.\<close>

definition csv_row :: "(pydatetime \<Rightarrow> string) \<Rightarrow> CloseApproach \<Rightarrow> error + pyval list" where
  "csv_row datetime_to_str line =
     (case neo line of
        None \<Rightarrow> Inl AttributeError
      | Some n \<Rightarrow>
          (let approach_data = ca_serialize datetime_to_str line;
               neo_data = neo_serialize n;
               content = dict_merge approach_data neo_data;
               content1 = AList.update ''name'' (dict_get content ''name'' (PStr '''')) content;
               content2 = AList.update ''potentially_hazardous''
                 (PStr (if truthy (dict_get content1 ''potentially_hazardous'' (PBool False))
                        then ''True'' else ''False'')) content1
           in writerow fieldnames content2))"

text \<open>
  \<open>write_to_csv\<close>: the header and one row per close approach of the stream, in its
  order; an exception in a row ends the export.
\<close>

fun csv_rows :: "(pydatetime \<Rightarrow> string) \<Rightarrow> CloseApproach list \<Rightarrow> error + pyval list list" where
  "csv_rows datetime_to_str [] = Inr []"
| "csv_rows datetime_to_str (line # rest) =
     (case csv_row datetime_to_str line of
        Inl e \<Rightarrow> Inl e
      | Inr r \<Rightarrow>
          (case csv_rows datetime_to_str rest of
             Inl e \<Rightarrow> Inl e
           | Inr rs \<Rightarrow> Inr (r # rs)))"

definition write_to_csv ::
  "(pydatetime \<Rightarrow> string) \<Rightarrow> CloseApproach list \<Rightarrow> error + pyval list list" where
  "write_to_csv datetime_to_str ca_data =
     (case csv_rows datetime_to_str ca_data of
        Inl e \<Rightarrow> Inl e
      | Inr rs \<Rightarrow> Inr (map PStr fieldnames # rs))"

section \<open>Properties of the result limiter\<close>

lemma drain_None: "limit_next g = (None, g') \<Longrightarrow> drain g = ([], g')"
  by (subst drain.simps) simp

lemma drain_Some:
  "limit_next g = (Some x, g') \<Longrightarrow> drain g = (x # fst (drain g'), snd (drain g'))"
  by (subst drain.simps) (simp split: prod.splits)

lemma drain_yield_from:
  "pc g = InYieldFrom \<Longrightarrow> fst (drain g) = iterator g \<and> iterator (snd (drain g)) = []"
proof (induction "iterator g" arbitrary: g)
  case Nil
  then show ?case
    by (simp add: drain_None limit_next_def yield_from_step_def)
next
  case (Cons x xs)
  let ?g' = "g\<lparr>iterator := xs, pc := InYieldFrom\<rparr>"
  have step: "limit_next g = (Some x, ?g')"
    using Cons.hyps(2) [symmetric] Cons.prems by (simp add: limit_next_def yield_from_step_def)
  have ih: "fst (drain ?g') = xs \<and> iterator (snd (drain ?g')) = []"
    using Cons.hyps(1) [of ?g'] by simp
  show ?case
    using step ih Cons.hyps(2) [symmetric]
    by (simp add: drain_Some)
qed

lemma drain_after_yield:
  "pc g = AfterYield \<Longrightarrow> cap g = Some n \<Longrightarrow>
     fst (drain g) = take (nat (n - count g - 1)) (iterator g) \<and>
     iterator (snd (drain g)) = drop (Suc (nat (n - count g - 1))) (iterator g)"
proof (induction "iterator g" arbitrary: g)
  case Nil
  then show ?case
    by (simp add: drain_None limit_next_def for_step_def)
next
  case (Cons x xs)
  show ?case
  proof (cases "count g + 1 \<ge> n")
    case True
    have step: "limit_next g = (None, g\<lparr>count := count g + 1, iterator := xs, pc := Finished\<rparr>)"
      using Cons.hyps(2) [symmetric] Cons.prems True by (simp add: limit_next_def for_step_def)
    show ?thesis
      using step True Cons.hyps(2) [symmetric]
      by (simp add: drain_None)
  next
    case False
    let ?g' = "g\<lparr>count := count g + 1, iterator := xs, pc := AfterYield\<rparr>"
    have step: "limit_next g = (Some x, ?g')"
      using Cons.hyps(2) [symmetric] Cons.prems False by (simp add: limit_next_def for_step_def)
    have ih: "fst (drain ?g') = take (nat (n - count ?g' - 1)) (iterator ?g') \<and>
              iterator (snd (drain ?g')) = drop (Suc (nat (n - count ?g' - 1))) (iterator ?g')"
      using Cons.hyps(1) [of ?g'] Cons.prems by simp
    have n: "nat (n - count g - 1) = Suc (nat (n - (count g + 1) - 1))"
      using False by simp
    show ?thesis
      using step ih Cons.hyps(2) [symmetric] n
      by (simp add: drain_Some)
  qed
qed

lemma drain_limit_capped:
  assumes "n \<noteq> 0"
  shows "fst (drain (limit xs (Some n))) = take (nat n) xs \<and>
         iterator (snd (drain (limit xs (Some n)))) = drop (Suc (nat n)) xs"
proof (cases xs)
  case Nil
  then show ?thesis
    using assms by (simp add: drain_None limit_def limit_next_def for_step_def)
next
  case (Cons x rest)
  show ?thesis
  proof (cases "0 \<ge> n")
    case True
    have step: "limit_next (limit xs (Some n)) =
        (None, \<lparr>iterator = rest, cap = Some n, count = 0, pc = Finished\<rparr>)"
      using assms True Cons by (simp add: limit_def limit_next_def for_step_def)
    show ?thesis
      using step True Cons by (simp add: drain_None)
  next
    case False
    let ?g' = "\<lparr>iterator = rest, cap = Some n, count = 0, pc = AfterYield\<rparr>"
    have step: "limit_next (limit xs (Some n)) = (Some x, ?g')"
      using assms False Cons by (simp add: limit_def limit_next_def for_step_def)
    have rest: "fst (drain ?g') = take (nat (n - count ?g' - 1)) (iterator ?g') \<and>
                iterator (snd (drain ?g')) = drop (Suc (nat (n - count ?g' - 1))) (iterator ?g')"
      by (rule drain_after_yield) simp_all
    have n: "nat n = Suc (nat (n - 1))"
      using False by simp
    show ?thesis
      using step rest Cons n by (simp add: drain_Some)
  qed
qed

lemma drain_limit_unlimited:
  assumes "n = None \<or> n = Some 0"
  shows "fst (drain (limit xs n)) = xs \<and> iterator (snd (drain (limit xs n))) = []"
proof (cases xs)
  case Nil
  then show ?thesis
    using assms by (auto simp add: drain_None limit_def limit_next_def yield_from_step_def)
next
  case (Cons x rest)
  let ?g' = "\<lparr>iterator = rest, cap = n, count = 0, pc = InYieldFrom\<rparr>"
  have step: "limit_next (limit xs n) = (Some x, ?g')"
    using assms Cons by (auto simp add: limit_def limit_next_def yield_from_step_def)
  have rest: "fst (drain ?g') = iterator ?g' \<and> iterator (snd (drain ?g')) = []"
    by (rule drain_yield_from) simp
  show ?thesis
    using step rest Cons by (simp add: drain_Some)
qed

lemma take_next_after_yield:
  "pc g = AfterYield \<Longrightarrow> cap g = Some n \<Longrightarrow> int k \<le> n - count g - 1 \<Longrightarrow>
     fst (take_next k g) = take k (iterator g) \<and>
     iterator (snd (take_next k g)) = drop k (iterator g)"
proof (induction k arbitrary: g)
  case 0
  then show ?case by simp
next
  case (Suc k)
  show ?case
  proof (cases "iterator g")
    case Nil
    then show ?thesis
      using Suc.prems by (simp add: limit_next_def for_step_def)
  next
    case (Cons x xs)
    let ?g' = "g\<lparr>count := count g + 1, iterator := xs, pc := AfterYield\<rparr>"
    have step: "limit_next g = (Some x, ?g')"
      using Cons Suc.prems by (simp add: limit_next_def for_step_def)
    have ih: "fst (take_next k ?g') = take k (iterator ?g') \<and>
              iterator (snd (take_next k ?g')) = drop k (iterator ?g')"
      using Suc.prems by (intro Suc.IH) simp_all
    show ?thesis
      using step ih Cons by (auto split: prod.splits)
  qed
qed

lemma take_next_limit_capped:
  assumes "int k \<le> n"
  shows "fst (take_next k (limit xs (Some n))) = take k xs \<and>
         iterator (snd (take_next k (limit xs (Some n)))) = drop k xs"
proof (cases k)
  case 0
  then show ?thesis by (simp add: limit_def)
next
  case (Suc j)
  show ?thesis
  proof (cases xs)
    case Nil
    then show ?thesis
      using Suc assms by (simp add: limit_def limit_next_def for_step_def)
  next
    case (Cons x rest)
    let ?g' = "\<lparr>iterator = rest, cap = Some n, count = 0, pc = AfterYield\<rparr>"
    have step: "limit_next (limit xs (Some n)) = (Some x, ?g')"
      using assms Suc Cons by (simp add: limit_def limit_next_def for_step_def)
    have rest: "fst (take_next j ?g') = take j (iterator ?g') \<and>
                iterator (snd (take_next j ?g')) = drop j (iterator ?g')"
      using assms Suc by (intro take_next_after_yield [where n = n]) simp_all
    show ?thesis
      using step rest Cons Suc by (auto split: prod.splits)
  qed
qed

text \<open>
  What the limiter does deliver. For a positive cap \<open>n\<close> it yields exactly the first
  \<open>min n (length xs)\<close> items in order, and a consumer that takes \<open>k \<le> n\<close> items and
  stops has advanced the source by exactly those items. With the cap \<open>None\<close> or \<open>0\<close>
  the whole source is yielded.
\<close>

lemma limit_yields_prefix:
  assumes "0 < n"
  shows "fst (drain (limit xs (Some n))) = take (nat n) xs \<and>
         length (fst (drain (limit xs (Some n)))) = min (nat n) (length xs) \<and>
         (\<forall>k. int k \<le> n \<longrightarrow>
            fst (take_next k (limit xs (Some n))) = take k xs \<and>
            iterator (snd (take_next k (limit xs (Some n)))) = drop k xs) \<and>
         fst (drain (limit xs None)) = xs \<and>
         fst (drain (limit xs (Some 0))) = xs"
proof -
  have "n \<noteq> 0" using assms by simp
  then show ?thesis
    using drain_limit_capped [of n xs] take_next_limit_capped [of _ n xs]
      drain_limit_unlimited [of None xs] drain_limit_unlimited [of "Some 0" xs]
    by (simp add: min_def)
qed

text \<open>
  Claim C2. The limiter does not stop pulling when the cap is reached: the \<open>for\<close>
  statement takes the next item from the source before the counter is compared with the
  cap, so a limiter with a positive cap \<open>n\<close> that is run to its end over a source of more
  than \<open>n\<close> items has yielded the first \<open>n\<close> items and has taken \<open>n + 1\<close> items from the
  source. The source is not left where the yielded items end.
\<close>

theorem limit_overpull:
  assumes "0 < n" and "nat n < length xs"
  shows "fst (drain (limit xs (Some n))) = take (nat n) xs \<and>
         iterator (snd (drain (limit xs (Some n)))) = drop (Suc (nat n)) xs \<and>
         iterator (snd (drain (limit xs (Some n)))) \<noteq>
           drop (length (fst (drain (limit xs (Some n))))) xs"
proof -
  have "n \<noteq> 0" using assms by simp
  then have d: "fst (drain (limit xs (Some n))) = take (nat n) xs \<and>
      iterator (snd (drain (limit xs (Some n)))) = drop (Suc (nat n)) xs"
    by (rule drain_limit_capped)
  have "length (drop (Suc (nat n)) xs) \<noteq> length (drop (nat n) xs)"
    using assms by simp
  then have "drop (Suc (nat n)) xs \<noteq> drop (nat n) xs"
    by metis
  moreover have "length (take (nat n) xs) = nat n"
    using assms by simp
  ultimately show ?thesis
    using d by simp
qed

theorem limit_overpull_witness:
  "(0::int) < 2 \<and> nat 2 < length [10, 20, 30, 40, 50 :: nat] \<and>
   fst (drain (limit [10, 20, 30, 40, 50 :: nat] (Some 2))) = [10, 20] \<and>
   iterator (snd (drain (limit [10, 20, 30, 40, 50 :: nat] (Some 2)))) = [40, 50]"
  using limit_overpull [of 2 "[10, 20, 30, 40, 50 :: nat]"] by simp

text \<open>
  Over five items with cap 2, the exhausted limiter has yielded two items and has taken
  three from the source.
\<close>

theorem limit_pulls_past_cap:
  "iterator (snd (drain (limit [10, 20, 30, 40, 50 :: nat] (Some 2)))) \<noteq>
     drop (length (fst (drain (limit [10, 20, 30, 40, 50 :: nat] (Some 2)))))
       [10, 20, 30, 40, 50]"
  using drain_limit_capped [of 2 "[10, 20, 30, 40, 50 :: nat]"] by simp

text \<open>
  Claim C10. For a negative cap the limiter yields nothing, and it has pulled one item
  from a source that is not empty before it stops.
\<close>

theorem limit_negative:
  assumes "n < 0"
  shows "fst (drain (limit xs (Some n))) = [] \<and>
         iterator (snd (drain (limit xs (Some n)))) = drop 1 xs"
  using assms drain_limit_capped [of n xs] by simp

theorem limit_negative_witness:
  "(-3::int) < 0 \<and>
   fst (drain (limit [10, 20, 30 :: nat] (Some (-3)))) = [] \<and>
   iterator (snd (drain (limit [10, 20, 30 :: nat] (Some (-3))))) = [20, 30]"
  using limit_negative [of "-3" "[10, 20, 30 :: nat]"] by simp

section \<open>Properties of record construction\<close>

text \<open>
  What \<open>isDigitorNone\<close> does with a text: the float it denotes, or not-a-number when
  it denotes none. With \<open>None\<close> the \<open>TypeError\<close> of \<open>float\<close> leaves the method.
\<close>

lemma isDigitorNone_text:
  "isDigitorNone str2f (PStr s) = Inr (case str2f s of None \<Rightarrow> NaN | Some f \<Rightarrow> f)"
  by (simp add: isDigitorNone_def split: option.splits)

lemma isDigitorNone_None: "isDigitorNone str2f PNone = Inl TypeError"
  by (simp add: isDigitorNone_def)

lemma NearEarthObject_init_text:
  "NearEarthObject_init str2f [''designation'' \<mapsto> PStr ''433'', ''diameter'' \<mapsto> PStr s] =
     Inr \<lparr>name = PNone, designation = PStr ''433'',
          diameter = PFloat (case str2f s of None \<Rightarrow> NaN | Some f \<Rightarrow> f),
          hazardous = PNone, approaches = []\<rparr>"
  by (simp add: NearEarthObject_init_def info_get_def isDigitorNone_text)

text \<open>
  Claim C1. Constructing a NEO from a mapping without a diameter raises: the value read
  is \<open>None\<close>, \<open>float(None)\<close> raises \<open>TypeError\<close>, and the handler of \<open>isDigitorNone\<close>
  catches \<open>ValueError\<close> only. No NEO with a not-a-number diameter is constructed.
\<close>

theorem missing_diameter_raises:
  "NearEarthObject_init str2f [''designation'' \<mapsto> PStr ''433''] = Inl TypeError"
  by (simp add: NearEarthObject_init_def info_get_def isDigitorNone_def)

text \<open>
  The distance of a close approach is coerced, and a text that is no number makes the
  constructor raise.
\<close>

lemma distance_coerced:
  "CloseApproach_init (\<lambda>v. Inr t) (\<lambda>s. None)
     [''distance'' \<mapsto> PStr ''far'', ''velocity'' \<mapsto> PFloat (Fin 1)] None = Inl ValueError"
  by (simp add: CloseApproach_init_def info_get_def)

text \<open>
  Claim C3. The velocity is not coerced: a close approach constructed with a velocity
  that is a text and no number is constructed without an error, and its velocity is that
  text, not a float.
\<close>

theorem velocity_not_coerced:
  "CloseApproach_init (\<lambda>v. Inr (DateTime 2020 1 1 0 0)) str2f
     [''designation'' \<mapsto> PStr ''433'', ''time'' \<mapsto> PStr ''2020-Jan-01 00:00'',
      ''distance'' \<mapsto> PFloat (Fin (1/2)), ''velocity'' \<mapsto> PStr ''fast''] None =
   Inr \<lparr>ca_designation = PStr ''433'', time = DateTime 2020 1 1 0 0,
        distance = PFloat (Fin (1/2)), velocity = PStr ''fast'', neo = None\<rparr>"
  by (simp add: CloseApproach_init_def info_get_def)




section \<open>Properties of the filters\<close>

text \<open>
  The loop of \<open>create_filters\<close> in closed form: one filter for every argument that is
  not \<open>None\<close>, in the order of \<open>filter_mappings\<close>.
\<close>

lemma create_filters_loop_eq:
  "create_filters_loop ms vals acc =
     acc @ concat (map (\<lambda>(k, c, oper).
                      if info_get vals k \<noteq> PNone
                      then [\<lparr>cls = c, op = oper, ref_value = info_get vals k\<rparr>] else []) ms)"
  by (induction ms vals acc rule: create_filters_loop.induct) (simp_all add: Let_def)

lemma create_filters_eq:
  "create_filters d sd ed dmin dmax vmin vmax amin amax hz =
     concat (map (\<lambda>(c, oper, v). if v \<noteq> PNone then [\<lparr>cls = c, op = oper, ref_value = v\<rparr>] else [])
          [(DateFilter, eq, d), (DateFilter, ge, sd), (DateFilter, le, ed),
           (DistFilter, ge, dmin), (DistFilter, le, dmax),
           (VeloFilter, ge, vmin), (VeloFilter, le, vmax),
           (DiamFilter, ge, amin), (DiamFilter, le, amax),
           (HazFilter, eq, hz)])"
  unfolding create_filters_def create_filters_loop_eq filter_mappings_def
  by (simp add: info_get_def split del: if_split cong: if_cong)



text \<open>
  Claim C7. Calling a filter of the base class \<open>AttributeFilter\<close>, whatever its comparator
  and reference value, on any close approach raises \<open>UnsupportedCriterionError\<close>; it
  returns no truth value.
\<close>

theorem base_filter_raises:
  "filter_call \<lparr>cls = AttributeFilter, op = oper, ref_value = v\<rparr> approach =
     Inl UnsupportedCriterionError"
  by (simp add: filter_call_def)

text \<open>
  Claim C8. The date filters look at the calendar date of the approach's time, the time
  of day dropped. The filter of \<open>date = D\<close> returns true iff the date of the approach is
  \<open>D\<close>; the filter of \<open>start_date = D\<close> returns true iff \<open>D\<close> is on or before the date of
  the approach, and the filter of \<open>end_date = D\<close> iff the date of the approach is on or
  before \<open>D\<close>, both bounds inclusive. These are the filters that \<open>create_filters\<close> builds
  for the three arguments.
\<close>

theorem date_filters:
  "filter_call \<lparr>cls = DateFilter, op = eq, ref_value = PDate D\<rparr> a = Inr (dt_date (time a) = D) \<and>
   filter_call \<lparr>cls = DateFilter, op = ge, ref_value = PDate D\<rparr> a = Inr (date_le D (dt_date (time a))) \<and>
   filter_call \<lparr>cls = DateFilter, op = le, ref_value = PDate D\<rparr> a = Inr (date_le (dt_date (time a)) D) \<and>
   date_le D D \<and>
   dt_date (DateTime y m d hh mi) = Date y m d \<and>
   create_filters (PDate D) PNone PNone PNone PNone PNone PNone PNone PNone PNone =
     [\<lparr>cls = DateFilter, op = eq, ref_value = PDate D\<rparr>] \<and>
   create_filters PNone (PDate D) PNone PNone PNone PNone PNone PNone PNone PNone =
     [\<lparr>cls = DateFilter, op = ge, ref_value = PDate D\<rparr>] \<and>
   create_filters PNone PNone (PDate D) PNone PNone PNone PNone PNone PNone PNone =
     [\<lparr>cls = DateFilter, op = le, ref_value = PDate D\<rparr>]"
proof -
  have refl: "date_le D D" by (cases D) simp
  show ?thesis
    using refl by (simp add: filter_call_def py_eq_def create_filters_eq)
qed

theorem date_filters_witness:
  "filter_call \<lparr>cls = DateFilter, op = eq, ref_value = PDate (Date 2020 1 1)\<rparr>
     \<lparr>ca_designation = PStr ''433'', time = DateTime 2020 1 1 13 45,
      distance = PFloat (Fin (1/2)), velocity = PFloat (Fin 7), neo = None\<rparr> = Inr True \<and>
   filter_call \<lparr>cls = DateFilter, op = eq, ref_value = PDate (Date 2020 1 1)\<rparr>
     \<lparr>ca_designation = PStr ''433'', time = DateTime 2020 1 2 0 1,
      distance = PFloat (Fin (1/2)), velocity = PFloat (Fin 7), neo = None\<rparr> = Inr False \<and>
   filter_call \<lparr>cls = DateFilter, op = le, ref_value = PDate (Date 2020 1 1)\<rparr>
     \<lparr>ca_designation = PStr ''433'', time = DateTime 2020 1 1 13 45,
      distance = PFloat (Fin (1/2)), velocity = PFloat (Fin 7), neo = None\<rparr> = Inr True \<and>
   filter_call \<lparr>cls = DateFilter, op = ge, ref_value = PDate (Date 2020 1 1)\<rparr>
     \<lparr>ca_designation = PStr ''433'', time = DateTime 2019 12 31 23 59,
      distance = PFloat (Fin (1/2)), velocity = PFloat (Fin 7), neo = None\<rparr> = Inr False"
  using
    date_filters [of "Date 2020 1 1"
      "\<lparr>ca_designation = PStr ''433'', time = DateTime 2020 1 1 13 45,
        distance = PFloat (Fin (1/2)), velocity = PFloat (Fin 7), neo = None\<rparr>"]
    date_filters [of "Date 2020 1 1"
      "\<lparr>ca_designation = PStr ''433'', time = DateTime 2020 1 2 0 1,
        distance = PFloat (Fin (1/2)), velocity = PFloat (Fin 7), neo = None\<rparr>"]
    date_filters [of "Date 2020 1 1"
      "\<lparr>ca_designation = PStr ''433'', time = DateTime 2019 12 31 23 59,
        distance = PFloat (Fin (1/2)), velocity = PFloat (Fin 7), neo = None\<rparr>"]
  by simp

section \<open>Properties of the query engine\<close>

lemma matches_all:
  assumes "\<forall>f\<in>set fs. \<exists>b. filter_call f a = Inr b"
  shows "matches fs a = Inr (\<forall>f\<in>set fs. filter_call f a = Inr True)"
  using assms by (induction fs) auto

lemma query_filter:
  assumes "\<forall>a\<in>set cas. \<forall>f\<in>set fs. \<exists>b. filter_call f a = Inr b"
  shows "query cas fs =
           Inr (filter (\<lambda>a. \<forall>f\<in>set fs. filter_call f a = Inr True) cas)"
  using assms by (induction cas) (simp_all add: matches_all)

lemma query_next_first:
  assumes "\<forall>a\<in>set cas. \<forall>f\<in>set fs. \<exists>b. filter_call f a = Inr b"
  shows "query_next fs cas =
           Inr (case dropWhile (\<lambda>a. \<not> (\<forall>f\<in>set fs. filter_call f a = Inr True)) cas of
                  [] \<Rightarrow> (None, [])
                | a # rest \<Rightarrow> (Some a, rest))"
  using assms by (induction cas) (simp_all add: matches_all)

text \<open>
  Claim C6. When no filter raises on an approach of the database, the query yields
  exactly the approaches on which every filter returns true, in the order of the
  collection (with no filter, every approach). It is lazy: one pull looks at the
  collection only up to the first match and leaves the rest untouched.
\<close>

theorem query_all_filters:
  assumes "\<forall>a\<in>set cas. \<forall>f\<in>set fs. \<exists>b. filter_call f a = Inr b"
  shows "query cas fs =
           Inr (filter (\<lambda>a. \<forall>f\<in>set fs. filter_call f a = Inr True) cas) \<and>
         query cas [] = Inr cas \<and>
         query_next fs cas =
           Inr (case dropWhile (\<lambda>a. \<not> (\<forall>f\<in>set fs. filter_call f a = Inr True)) cas of
                  [] \<Rightarrow> (None, [])
                | a # rest \<Rightarrow> (Some a, rest))"
proof -
  have "query cas [] = Inr cas"
    using query_filter [of cas "[]"] by simp
  then show ?thesis
    using query_filter [OF assms] query_next_first [OF assms] by simp
qed

theorem query_all_filters_witness:
  "query
     [\<lparr>ca_designation = PStr ''a'', time = DateTime 2020 1 1 0 0,
       distance = PFloat (Fin (3/10)), velocity = PFloat (Fin 1), neo = None\<rparr>,
      \<lparr>ca_designation = PStr ''b'', time = DateTime 2020 1 2 0 0,
       distance = PFloat (Fin (5/10)), velocity = PFloat (Fin 1), neo = None\<rparr>,
      \<lparr>ca_designation = PStr ''c'', time = DateTime 2020 1 3 0 0,
       distance = PFloat (Fin (7/10)), velocity = PFloat (Fin 1), neo = None\<rparr>]
     [\<lparr>cls = DistFilter, op = le, ref_value = PFloat (Fin (5/10))\<rparr>] =
   Inr
     [\<lparr>ca_designation = PStr ''a'', time = DateTime 2020 1 1 0 0,
       distance = PFloat (Fin (3/10)), velocity = PFloat (Fin 1), neo = None\<rparr>,
      \<lparr>ca_designation = PStr ''b'', time = DateTime 2020 1 2 0 0,
       distance = PFloat (Fin (5/10)), velocity = PFloat (Fin 1), neo = None\<rparr>]"
  using query_all_filters
    [of "[\<lparr>ca_designation = PStr ''a'', time = DateTime 2020 1 1 0 0,
       distance = PFloat (Fin (3/10)), velocity = PFloat (Fin 1), neo = None\<rparr>,
      \<lparr>ca_designation = PStr ''b'', time = DateTime 2020 1 2 0 0,
       distance = PFloat (Fin (5/10)), velocity = PFloat (Fin 1), neo = None\<rparr>,
      \<lparr>ca_designation = PStr ''c'', time = DateTime 2020 1 3 0 0,
       distance = PFloat (Fin (7/10)), velocity = PFloat (Fin 1), neo = None\<rparr>]"
     "[\<lparr>cls = DistFilter, op = le, ref_value = PFloat (Fin (5/10))\<rparr>]"]
  by (simp add: filter_call_def)

section \<open>Properties of the row-oriented export\<close>

lemma csv_row_cells:
  assumes "neo line = Some n"
  shows "csv_row datetime_to_str line =
     Inr [PStr (datetime_to_str (time line)),
          distance line,
          velocity line,
          (if truthy (designation n) then designation n else PStr ''''),
          (if truthy (name n) then name n else PStr ''''),
          (if diameter n \<noteq> PNone then diameter n else PFloat NaN),
          PStr (if truthy (hazardous n) then ''True'' else ''False'')]"
  using assms
  by (simp add: csv_row_def ca_serialize_def neo_serialize_def dict_merge_def dict_get_def
        writerow_def fieldnames_def Let_def)

lemma csv_rows_cells:
  assumes "\<forall>line\<in>set ca_data. neo line \<noteq> None"
  shows "csv_rows datetime_to_str ca_data =
     Inr (map (\<lambda>line.
            [PStr (datetime_to_str (time line)),
             distance line,
             velocity line,
             (if truthy (designation (the (neo line))) then designation (the (neo line))
              else PStr ''''),
             (if truthy (name (the (neo line))) then name (the (neo line)) else PStr ''''),
             (if diameter (the (neo line)) \<noteq> PNone then diameter (the (neo line))
              else PFloat NaN),
             PStr (if truthy (hazardous (the (neo line))) then ''True'' else ''False'')])
          ca_data)"
  using assms
proof (induction ca_data)
  case Nil
  then show ?case by simp
next
  case (Cons line rest)
  then obtain n where n: "neo line = Some n"
    by auto
  from Cons have "\<forall>l\<in>set rest. neo l \<noteq> None"
    by simp
  with Cons.IH n show ?case
    by (simp add: csv_row_cells [OF n])
qed

text \<open>
  Claim C9. When every close approach of the stream has its NEO linked, the export
  writes the header and then, for every approach in the order of the stream, one row
  whose cells are in the order of the header: the formatted time, the distance, the
  velocity, the designation, the name, the diameter and the hazard flag. A name that is
  \<open>None\<close> (or empty) gives the empty text, a diameter that is \<open>None\<close> gives
  not-a-number (and a diameter that is not-a-number stays so), and the hazard flag gives
  the text \<open>True\<close> or the text \<open>False\<close>.
\<close>

theorem csv_export_rows:
  assumes "\<forall>line\<in>set ca_data. neo line \<noteq> None"
  shows "write_to_csv datetime_to_str ca_data =
     Inr ([PStr ''datetime_utc'', PStr ''distance_au'', PStr ''velocity_km_s'',
           PStr ''designation'', PStr ''name'', PStr ''diameter_km'',
           PStr ''potentially_hazardous''] #
          map (\<lambda>line.
            [PStr (datetime_to_str (time line)),
             distance line,
             velocity line,
             (if truthy (designation (the (neo line))) then designation (the (neo line))
              else PStr ''''),
             (if truthy (name (the (neo line))) then name (the (neo line)) else PStr ''''),
             (if diameter (the (neo line)) \<noteq> PNone then diameter (the (neo line))
              else PFloat NaN),
             PStr (if truthy (hazardous (the (neo line))) then ''True'' else ''False'')])
          ca_data)"
  by (simp add: write_to_csv_def csv_rows_cells [OF assms] fieldnames_def)

theorem csv_export_rows_witness:
  "write_to_csv (\<lambda>t. ''2020-01-01 13:45'')
     [\<lparr>ca_designation = PStr ''433'', time = DateTime 2020 1 1 13 45,
       distance = PFloat (Fin (1/2)), velocity = PFloat (Fin 7),
       neo = Some \<lparr>name = PNone, designation = PStr ''433'', diameter = PNone,
                   hazardous = PBool False, approaches = []\<rparr>\<rparr>] =
   Inr [[PStr ''datetime_utc'', PStr ''distance_au'', PStr ''velocity_km_s'',
         PStr ''designation'', PStr ''name'', PStr ''diameter_km'',
         PStr ''potentially_hazardous''],
        [PStr ''2020-01-01 13:45'', PFloat (Fin (1/2)), PFloat (Fin 7), PStr ''433'',
         PStr '''', PFloat NaN, PStr ''False'']]"
  using csv_export_rows
    [of "[\<lparr>ca_designation = PStr ''433'', time = DateTime 2020 1 1 13 45,
       distance = PFloat (Fin (1/2)), velocity = PFloat (Fin 7),
       neo = Some \<lparr>name = PNone, designation = PStr ''433'', diameter = PNone,
                   hazardous = PBool False, approaches = []\<rparr>\<rparr>]"
        "\<lambda>t. ''2020-01-01 13:45''"]
  by simp

end
